theory Spec2Isabelle
  imports Complex_Main
begin

section \<open>Dates, numbers and strings of the host language\<close>

text \<open>
  A JavaScript \<open>Date\<close> is modelled by its local time value in milliseconds (ECMAScript's
  \<open>LocalTime(t)\<close>), an unbounded integer. \<open>getTime()\<close> is that value minus the zone
  offset of the browser; the browser's zone is taken to have a constant offset, so the
  offset cancels in every difference and comparison the program makes, and the model
  reads \<open>getTime()\<close> as the local time value itself. The range limit of \<open>TimeClip\<close>
  (8.64e15 ms) is not modelled: every date built here lies within days of a clock reading.

  The clock (\<open>nowInTZ\<close>) is an input: each call of \<open>nowInTZ\<close> in the source is one
  explicit argument of the model.
\<close>

type_synonym Date = int

definition msPerDay :: int where
  "msPerDay = 86400000"

text \<open>ECMAScript \<open>Day(t) = floor(t / msPerDay)\<close> and \<open>TimeWithinDay(t) = t modulo msPerDay\<close>.\<close>

definition Day :: "Date \<Rightarrow> int" where
  "Day t = t div msPerDay"

definition TimeWithinDay :: "Date \<Rightarrow> int" where
  "TimeWithinDay t = t mod msPerDay"

text \<open>\<open>d.setHours(h, m, s, ms)\<close>: \<open>MakeDate(Day(t), MakeTime(h, m, s, ms))\<close>; fields out of
  range carry into the neighbouring days, as in the language.\<close>

definition setHours :: "Date \<Rightarrow> int \<Rightarrow> int \<Rightarrow> int \<Rightarrow> int \<Rightarrow> Date" where
  "setHours d h m s ms = Day d * msPerDay + (h * 3600000 + m * 60000 + s * 1000 + ms)"

text \<open>\<open>d.setFullYear(temp.getFullYear(), temp.getMonth(), temp.getDate())\<close>: the calendar
  day of \<open>temp\<close> with the time within the day of \<open>d\<close>.\<close>

definition setFullYear_of :: "Date \<Rightarrow> Date \<Rightarrow> Date" where
  "setFullYear_of d temp = Day temp * msPerDay + TimeWithinDay d"

text \<open>\<open>getDay()\<close>: \<open>WeekDay(t) = (Day(t) + 4) modulo 7\<close>, 0 is Sunday and 6 is Saturday
  (day 0 of the time line, 1 January 1970, is a Thursday).\<close>

definition getDay :: "Date \<Rightarrow> int" where
  "getDay t = (Day t + 4) mod 7"

text \<open>\<open>a.toDateString() !== b.toDateString()\<close>: the text holds weekday, month, day and year,
  so two dates give the same text exactly when they lie on the same calendar day.\<close>

definition sameDateString :: "Date \<Rightarrow> Date \<Rightarrow> bool" where
  "sameDateString a b \<longleftrightarrow> Day a = Day b"

text \<open>Strings are byte lists; text outside ASCII stands in its UTF-8 encoding.
  \<open>String(n)\<close> of an integer is its decimal numeral, with a minus sign below zero.\<close>

definition digit_char :: "nat \<Rightarrow> char" where
  "digit_char n = ''0123456789'' ! (n mod 10)"

fun digits10 :: "nat \<Rightarrow> string" where
  "digits10 n = (if n < 10 then [digit_char n] else digits10 (n div 10) @ [digit_char (n mod 10)])"

declare digits10.simps [simp del]

definition String_of :: "int \<Rightarrow> string" where
  "String_of n = (if n < 0 then CHR ''-'' # digits10 (nat (- n)) else digits10 (nat n))"

text \<open>\<open>s.padStart(n, fill)\<close>.\<close>

definition padStart :: "nat \<Rightarrow> string \<Rightarrow> string \<Rightarrow> string" where
  "padStart n fill s =
     (if n \<le> length s \<or> fill = [] then s
      else take (n - length s) (concat (replicate (n - length s) fill)) @ s)"

section \<open>The countdown (timer.tsx)\<close>

text \<open>The repository holds an older copy of the file, without the weekend rules; its
  \<open>targetForDate\<close>, \<open>formatDiff\<close>, \<open>progressToTarget\<close> and \<open>useCountdown\<close> are the same
  as the ones modelled here.\<close>

record TimeCfg =
  hours :: int
  minutes :: int
  label :: string

record CountdownState =
  nowWita :: Date
  targetToday :: Date
  diffText :: string
  status :: string
  progress :: rat
  isCompleted :: bool

definition DEFAULT_REST :: TimeCfg where
  "DEFAULT_REST = \<lparr>hours = 11, minutes = 30, label = ''Waktunya istirahat''\<rparr>"

definition DEFAULT_HOME :: TimeCfg where
  "DEFAULT_HOME = \<lparr>hours = 16, minutes = 0, label = ''Waktunya pulang''\<rparr>"

definition targetForDate :: "int \<Rightarrow> int \<Rightarrow> Date \<Rightarrow> Date" where
  "targetForDate h m baseDate = setHours baseDate h m 0 0"

text \<open>The result of \<open>formatDiff\<close>, \<open>{ text, days }\<close>; the field \<open>text\<close> is named
  \<open>text_str\<close>, since \<open>text\<close> is a keyword here.\<close>

record DiffText =
  text_str :: string
  days :: int

definition formatDiff :: "int \<Rightarrow> DiffText" where
  "formatDiff ms =
     (let total = max 0 (ms div 1000);
          days = total div 86400;
          total = total mod 86400;
          h = total div 3600;
          total = total mod 3600;
          m = total div 60;
          s = total mod 60
      in \<lparr>text_str = padStart 2 ''0'' (String_of h) @ '':'' @ padStart 2 ''0'' (String_of m) @ '':''
                      @ padStart 2 ''0'' (String_of s),
          days = days\<rparr>)"

text \<open>The numbers of the progress computation: a finite value (an exact rational; the
  rounding of doubles is not modelled), the two infinities, or \<open>NaN\<close>. \<open>divide_js a b\<close>
  is \<open>a / b\<close> for integer operands: dividing by zero gives an infinity with the sign of
  \<open>a\<close>, and \<open>NaN\<close> for \<open>0 / 0\<close>. \<open>Math_min c x\<close> and \<open>Math_max c x\<close> are
  \<open>Math.min(c, x)\<close> and \<open>Math.max(c, x)\<close> for a finite \<open>c\<close>; both pass \<open>NaN\<close> on.\<close>

datatype double = D rat | DInf | DNegInf | DNaN

definition divide_js :: "int \<Rightarrow> int \<Rightarrow> double" where
  "divide_js a b =
     (if b = 0 then (if a = 0 then DNaN else if 0 < a then DInf else DNegInf)
      else D (of_int a / of_int b))"

definition Math_min :: "rat \<Rightarrow> double \<Rightarrow> double" where
  "Math_min c x = (case x of D v \<Rightarrow> D (min c v) | DInf \<Rightarrow> D c | DNegInf \<Rightarrow> DNegInf | DNaN \<Rightarrow> DNaN)"

definition Math_max :: "rat \<Rightarrow> double \<Rightarrow> double" where
  "Math_max c x = (case x of D v \<Rightarrow> D (max c v) | DInf \<Rightarrow> DInf | DNegInf \<Rightarrow> D c | DNaN \<Rightarrow> DNaN)"

definition Number_isFinite :: "double \<Rightarrow> bool" where
  "Number_isFinite x = (case x of D v \<Rightarrow> True | _ \<Rightarrow> False)"

text \<open>\<open>progressToTarget(target, startHour = 8)\<close>; \<open>witaNow\<close> is the reading of the clock
  that the function takes itself. The function is given local by local: \<open>dayStart_of\<close>
  is the value of \<open>dayStart\<close>, \<open>span_of\<close> of \<open>span\<close>, \<open>done_of\<close> of \<open>done\<close>,
  \<open>quotient_of\<close> of the division \<open>(100 * (span - done)) / (span || 1)\<close>, \<open>pct_of\<close> of
  \<open>pct\<close>, and \<open>progressToTarget\<close> is the returned
  \<open>Number.isFinite(pct) ? pct : 0\<close>. \<open>span_or_1\<close> is the divisor \<open>span || 1\<close>: 1 when
  \<open>span\<close> is 0 and \<open>span\<close> otherwise.\<close>

definition dayStart_of :: "Date \<Rightarrow> int \<Rightarrow> Date \<Rightarrow> Date" where
  "dayStart_of target startHour witaNow =
     (let dayStart = setHours witaNow startHour 0 0 0
      in if \<not> sameDateString target witaNow
         then setHours (setFullYear_of dayStart target) startHour 0 0 0
         else dayStart)"

definition span_or_1 :: "int \<Rightarrow> int" where
  "span_or_1 span_ms = (if span_ms = 0 then 1 else span_ms)"

definition span_of :: "Date \<Rightarrow> int \<Rightarrow> Date \<Rightarrow> int" where
  "span_of target startHour witaNow = target - dayStart_of target startHour witaNow"

definition done_of :: "Date \<Rightarrow> int \<Rightarrow> Date \<Rightarrow> int" where
  "done_of target startHour witaNow =
     max 0 (min (target - witaNow) (span_of target startHour witaNow))"

definition quotient_of :: "Date \<Rightarrow> int \<Rightarrow> Date \<Rightarrow> double" where
  "quotient_of target startHour witaNow =
     divide_js (100 * (span_of target startHour witaNow - done_of target startHour witaNow))
       (span_or_1 (span_of target startHour witaNow))"

definition pct_of :: "Date \<Rightarrow> int \<Rightarrow> Date \<Rightarrow> double" where
  "pct_of target startHour witaNow = Math_max 0 (Math_min 100 (quotient_of target startHour witaNow))"

definition progressToTarget :: "Date \<Rightarrow> int \<Rightarrow> Date \<Rightarrow> rat" where
  "progressToTarget target startHour witaNow =
     (case pct_of target startHour witaNow of D pct \<Rightarrow> pct | _ \<Rightarrow> 0)"

definition formatBadgeTime :: "int \<Rightarrow> int \<Rightarrow> string" where
  "formatBadgeTime h m =
     padStart 2 ''0'' (String_of h) @ '':'' @ padStart 2 ''0'' (String_of m) @ '' WITA''"

text \<open>Text outside ASCII, in UTF-8: the party popper (U+1F389), the middle dot (U+00B7),
  the em dash (U+2014) and the balloon (U+1F388).\<close>

definition party :: string where
  "party = [CHR 0xF0, CHR 0x9F, CHR 0x8E, CHR 0x89]"

definition middot :: string where
  "middot = [CHR 0xC2, CHR 0xB7]"

definition emdash :: string where
  "emdash = [CHR 0xE2, CHR 0x80, CHR 0x94]"

definition balloon :: string where
  "balloon = [CHR 0xF0, CHR 0x9F, CHR 0x8E, CHR 0x88]"

text \<open>The hook \<open>useCountdown\<close>. \<open>toLocaleString\<close> is the locale formatter of the target date
  (\<open>today.toLocaleString("id-ID", ...)\<close>), a parameter. \<open>initialState\<close> is the initializer of
  \<open>useState\<close>; \<open>tick\<close> is the callback of the effect, run at once and then every second:
  it reads the clock (\<open>now\<close>, and \<open>witaNow\<close> inside \<open>progressToTarget\<close>) and replaces the
  state; the state before (\<open>old\<close>) is not read.\<close>

definition initialState :: "TimeCfg \<Rightarrow> (Date \<Rightarrow> string) \<Rightarrow> Date \<Rightarrow> Date \<Rightarrow> CountdownState" where
  "initialState cfg toLocaleString now witaNow =
     (let today = targetForDate (hours cfg) (minutes cfg) now;
          isCompleted = (today \<le> now);
          txt = text_str (formatDiff (max 0 (today - now)))
      in \<lparr>nowWita = now,
          targetToday = today,
          diffText = (if isCompleted then ''00:00:00'' else txt),
          status = (if isCompleted then label cfg @ '' selesai '' @ party
                    else ''Target hari ini, '' @ toLocaleString today),
          progress = (if isCompleted then 100 else progressToTarget today 8 witaNow),
          isCompleted = isCompleted\<rparr>)"

definition tick :: "TimeCfg \<Rightarrow> (Date \<Rightarrow> string) \<Rightarrow> Date \<Rightarrow> Date \<Rightarrow> CountdownState \<Rightarrow> CountdownState" where
  "tick cfg toLocaleString now witaNow old =
     (let today = targetForDate (hours cfg) (minutes cfg) now;
          isCompleted = (today \<le> now)
      in if isCompleted
         then \<lparr>nowWita = now,
               targetToday = today,
               diffText = ''00:00:00'',
               status = label cfg @ '' selesai '' @ party @ '' '' @ middot
                        @ '' hitung ulang setelah 00:00 WITA'',
               progress = 100,
               isCompleted = isCompleted\<rparr>
         else (let diff = today - now
               in \<lparr>nowWita = now,
                   targetToday = today,
                   diffText = text_str (formatDiff diff),
                   status = ''Target hari ini, '' @ toLocaleString today,
                   progress = progressToTarget today 8 witaNow,
                   isCompleted = isCompleted\<rparr>))"

text \<open>What a card shows: the heading, the badge, the big countdown text and its colour
  class, the status line, the width of the bar in percent, the colour class of the bar,
  and whether the confetti overlay is drawn.\<close>

datatype accent = Amber | Emerald

record CardView =
  heading :: string
  badgeText :: string
  bigText :: string
  bigTextColor :: string
  statusLine :: string
  barWidth :: rat
  barClass :: string
  confetti :: bool

definition Card :: "string \<Rightarrow> string \<Rightarrow> CountdownState \<Rightarrow> accent \<Rightarrow> CardView" where
  "Card title badge data acc =
     (let barColor = (if acc = Amber then ''bg-amber-500'' else ''bg-emerald-500'')
      in \<lparr>heading = (if isCompleted data
                       then title @ '' '' @ emdash @ '' Selesai '' @ party else title),
          badgeText = badge,
          bigText = diffText data,
          bigTextColor = (if isCompleted data then ''text-green-600 dark:text-green-400'' else []),
          statusLine = status data,
          barWidth = (if isCompleted data then 100 else progress data),
          barClass = (if isCompleted data then ''bg-green-500 animate-pulse'' else barColor),
          confetti = isCompleted data\<rparr>)"

definition HolidayCard :: CardView where
  "HolidayCard =
     \<lparr>heading = ''Hari Minggu '' @ emdash @ '' Libur '' @ balloon,
      badgeText = ''WITA'',
      bigText = ''00:00:00'',
      bigTextColor = ''text-green-600 dark:text-green-400'',
      statusLine = ''Selamat beristirahat! Countdown kerja akan kembali besok (Senin).'',
      barWidth = 100,
      barClass = ''bg-green-500 animate-pulse'',
      confetti = False\<rparr>"

text \<open>The component \<open>TimerWITA\<close>: both hooks are always called, with their own clock
  readings (\<open>nowR\<close>, \<open>witaNowR\<close> for the rest countdown and \<open>nowH\<close>, \<open>witaNowH\<close> for the
  home countdown) and their states before (\<open>oldR\<close>, \<open>oldH\<close>); the day of the week is read
  from the state of the rest countdown. The result holds the two hook states, the
  effective home configuration and what is rendered: the Sunday badge of the header, the
  date of the clock line, the two cards and the footer.\<close>

record Rendered =
  istirahat :: CountdownState
  pulang :: CountdownState
  effectiveHome :: TimeCfg
  sundayBadge :: bool
  clockLine :: Date
  cards :: "CardView list"
  footer :: string

definition TimerWITA ::
  "TimeCfg \<Rightarrow> TimeCfg \<Rightarrow> (Date \<Rightarrow> string) \<Rightarrow> Date \<Rightarrow> Date \<Rightarrow> CountdownState
     \<Rightarrow> Date \<Rightarrow> Date \<Rightarrow> CountdownState \<Rightarrow> Rendered" where
  "TimerWITA restAt homeAt toLocaleString nowR witaNowR oldR nowH witaNowH oldH =
     (let istirahat = tick restAt toLocaleString nowR witaNowR oldR;
          day = getDay (nowWita istirahat);
          isSunday = (day = 0);
          isSaturday = (day = 6);
          effectiveHome = (if isSaturday
                           then homeAt\<lparr>hours := 14, minutes := 0,
                                       label := label homeAt @ '' (Sabtu)''\<rparr>
                           else homeAt);
          pulang = tick effectiveHome toLocaleString nowH witaNowH oldH;
          restBadge = formatBadgeTime (hours restAt) (minutes restAt);
          homeBadge = formatBadgeTime (hours effectiveHome) (minutes effectiveHome)
      in \<lparr>istirahat = istirahat,
          pulang = pulang,
          effectiveHome = effectiveHome,
          sundayBadge = isSunday,
          clockLine = nowWita istirahat,
          cards = (if isSunday then [HolidayCard, HolidayCard]
                   else [Card ''Menuju Istirahat'' restBadge istirahat Amber,
                         Card ''Menuju Pulang'' homeBadge pulang Emerald]),
          footer = (if isSunday
                    then ''Hari Minggu dianggap libur. Countdown kerja akan aktif kembali saat hari berganti (00:00 WITA).''
                    else ''Setelah target lewat, status tetap Selesai sampai hari berganti (00:00 WITA).'')\<rparr>)"

section \<open>The configuration layer (the wrapper WorkTimerApp)\<close>

record UserCfg =
  rest :: string
  home :: string

text \<open>\<open>/^\d{2}:\d{2}$/.test(t)\<close>: exactly two ASCII digits, a colon, two ASCII digits.\<close>

definition isDigit :: "char \<Rightarrow> bool" where
  "isDigit c \<longleftrightarrow> (48::nat) \<le> of_char c \<and> of_char c \<le> (57::nat)"

definition isValidTimeStr :: "string \<Rightarrow> bool" where
  "isValidTimeStr t =
     (case t of
        [a, b, c, d, e] \<Rightarrow> isDigit a \<and> isDigit b \<and> c = CHR '':'' \<and> isDigit d \<and> isDigit e
      | _ \<Rightarrow> False)"

text \<open>\<open>t.split(":")\<close>: the pieces between the colons, at least one piece.\<close>

fun split_on :: "char \<Rightarrow> string \<Rightarrow> string list" where
  "split_on c [] = [[]]"
| "split_on c (x # xs) =
     (if x = c then [] # split_on c xs
      else (case split_on c xs of [] \<Rightarrow> [[x]] | y # ys \<Rightarrow> (x # y) # ys))"

text \<open>The numbers \<open>parseInt\<close> returns. \<open>Num v\<close> is the double nearest to the integer \<open>v\<close>
  (\<open>v\<close> itself up to \<open>2^53\<close>); a numeral at or beyond the rounding boundary
  \<open>2^1024 - 2^970\<close> is an infinity.\<close>

datatype number = NaN | PosInfinity | NegInfinity | Num int

definition toNumber :: "int \<Rightarrow> number" where
  "toNumber v =
     (if 2 ^ 1024 - 2 ^ 970 \<le> v then PosInfinity
      else if v \<le> - (2 ^ 1024 - 2 ^ 970) then NegInfinity
      else Num v)"

text \<open>The white space \<open>parseInt\<close> skips: TAB, LF, VT, FF, CR, SP, and in UTF-8 the
  no-break space U+00A0, U+1680, U+2000 to U+200A, U+2028, U+2029, U+202F, U+205F,
  U+3000 and U+FEFF.\<close>

definition ws1 :: "char \<Rightarrow> bool" where
  "ws1 a \<longleftrightarrow> a \<in> {CHR 0x09, CHR 0x0A, CHR 0x0B, CHR 0x0C, CHR 0x0D, CHR 0x20}"

definition ws2 :: "char \<Rightarrow> char \<Rightarrow> bool" where
  "ws2 a b \<longleftrightarrow> a = CHR 0xC2 \<and> b = CHR 0xA0"

definition ws3 :: "char \<Rightarrow> char \<Rightarrow> char \<Rightarrow> bool" where
  "ws3 a b c \<longleftrightarrow>
     (a = CHR 0xE1 \<and> b = CHR 0x9A \<and> c = CHR 0x80) \<or>
     (a = CHR 0xE2 \<and> b = CHR 0x80 \<and>
        ((128::nat) \<le> of_char c \<and> of_char c \<le> (138::nat) \<or> c \<in> {CHR 0xA8, CHR 0xA9, CHR 0xAF})) \<or>
     (a = CHR 0xE2 \<and> b = CHR 0x81 \<and> c = CHR 0x9F) \<or>
     (a = CHR 0xE3 \<and> b = CHR 0x80 \<and> c = CHR 0x80) \<or>
     (a = CHR 0xEF \<and> b = CHR 0xBB \<and> c = CHR 0xBF)"

fun skip_ws :: "string \<Rightarrow> string" where
  "skip_ws (a # b # c # r) =
     (if ws1 a then skip_ws (b # c # r)
      else if ws2 a b then skip_ws (c # r)
      else if ws3 a b c then skip_ws r
      else a # b # c # r)"
| "skip_ws [a, b] = (if ws1 a then skip_ws [b] else if ws2 a b then [] else [a, b])"
| "skip_ws [a] = (if ws1 a then [] else [a])"
| "skip_ws [] = []"

definition digit_val :: "char \<Rightarrow> int" where
  "digit_val c = int (of_char c) - 48"

definition digits_value :: "string \<Rightarrow> int" where
  "digits_value ds = foldl (\<lambda>acc c. acc * 10 + digit_val c) 0 ds"

text \<open>\<open>parseInt(x, 10)\<close>: leading white space, an optional sign, then the longest run of
  digits; \<open>NaN\<close> when there is no digit.\<close>

definition parseInt10 :: "string \<Rightarrow> number" where
  "parseInt10 x =
     (let s = skip_ws x;
          sign = (case s of c # _ \<Rightarrow> if c = CHR ''-'' then - 1 else 1 | [] \<Rightarrow> (1::int));
          s = (case s of c # r \<Rightarrow> if c = CHR ''-'' \<or> c = CHR ''+'' then r else s | [] \<Rightarrow> s);
          ds = takeWhile isDigit s
      in if ds = [] then NaN else toNumber (sign * digits_value ds))"

text \<open>\<open>const [h, m] = ...\<close>: an element that the array does not have is \<open>undefined\<close>
  (\<open>None\<close>). \<open>Number.isFinite\<close> is false for \<open>undefined\<close>, \<open>NaN\<close> and the infinities.\<close>

definition element :: "'a list \<Rightarrow> nat \<Rightarrow> 'a option" where
  "element xs i = (if i < length xs then Some (xs ! i) else None)"

fun finite_value :: "number option \<Rightarrow> int option" where
  "finite_value (Some (Num v)) = Some v"
| "finite_value _ = None"

definition parseTimeToCfg :: "string \<Rightarrow> string \<Rightarrow> TimeCfg" where
  "parseTimeToCfg t lbl =
     (let parts = map parseInt10 (split_on CHR '':'' t);
          h = element parts 0;
          m = element parts 1;
          hours = (case finite_value h of Some v \<Rightarrow> min 23 (max 0 v) | None \<Rightarrow> 0);
          minutes = (case finite_value m of Some v \<Rightarrow> min 59 (max 0 v) | None \<Rightarrow> 0)
      in \<lparr>hours = hours, minutes = minutes, label = lbl\<rparr>)"

text \<open>The modal's \<open>handleSave\<close> on the form contents \<open>rest\<close> and \<open>home\<close>: the error text
  (\<open>Inl\<close>), or the configuration passed to \<open>onSave\<close> before the modal closes.\<close>

definition Modal_handleSave :: "string \<Rightarrow> string \<Rightarrow> string + UserCfg" where
  "Modal_handleSave r h =
     (if \<not> isValidTimeStr r \<or> \<not> isValidTimeStr h
      then Inl ''Format waktu harus HH:MM (24 jam).''
      else Inr \<lparr>rest = r, home = h\<rparr>)"

text \<open>What the mount effect finds under the storage key. \<open>Absent\<close>: \<open>getItem\<close> returns
  \<open>null\<close> or the empty string. \<open>Unreadable\<close>: \<open>getItem\<close> or \<open>JSON.parse\<close> throws, or the
  parsed value is \<open>null\<close>, so that reading its field throws. \<open>Parsed r h\<close>: the fields
  \<open>rest\<close> and \<open>home\<close> of the parsed value, \<open>None\<close> for a field that is \<open>undefined\<close>; the
  regular expression tests the field converted to a string. This is the mount effect on
  stored values of the declared type \<open>UserCfg\<close>, whose fields are strings; the mount
  effect on a stored value of any JSON type is \<open>loadStored\<close> below, and
  \<open>loadStored_typed\<close> shows that the two agree on the stored values of the declared
  type.\<close>

datatype stored = Absent | Unreadable | Parsed "string option" "string option"

definition ToString :: "string option \<Rightarrow> string" where
  "ToString v = (case v of None \<Rightarrow> ''undefined'' | Some s \<Rightarrow> s)"

record App =
  loading :: bool
  showModal :: bool
  userCfg :: UserCfg
  storage :: stored

definition initialApp :: "stored \<Rightarrow> App" where
  "initialApp st =
     \<lparr>loading = True, showModal = False,
      userCfg = \<lparr>rest = ''11:30'', home = ''16:00''\<rparr>, storage = st\<rparr>"

definition mountEffect :: "App \<Rightarrow> App" where
  "mountEffect app =
     (case storage app of
        Parsed r h \<Rightarrow>
          app\<lparr>userCfg := \<lparr>rest = (if isValidTimeStr (ToString r) then ToString r else ''11:30''),
                          home = (if isValidTimeStr (ToString h) then ToString h else ''16:00'')\<rparr>,
              showModal := False, loading := False\<rparr>
      | Absent \<Rightarrow> app\<lparr>showModal := True, loading := False\<rparr>
      | Unreadable \<Rightarrow>
          app\<lparr>userCfg := \<lparr>rest = ''11:30'', home = ''16:00''\<rparr>,
              showModal := True, loading := False\<rparr>)"

text \<open>What the user can do once the page is loaded: press "Ubah jam", press "Batal" in
  the open modal, or press "Simpan" in the open modal with the form holding \<open>r\<close> and
  \<open>h\<close>. The app's \<open>handleSave\<close> stores the configuration in the state and under the
  storage key.\<close>

datatype event = Ubah | Batal | Simpan string string

definition App_handleSave :: "UserCfg \<Rightarrow> App \<Rightarrow> App" where
  "App_handleSave cfg app =
     app\<lparr>userCfg := cfg, storage := Parsed (Some (rest cfg)) (Some (home cfg))\<rparr>"

fun step :: "App \<Rightarrow> event \<Rightarrow> App" where
  "step app Ubah = app\<lparr>showModal := True\<rparr>"
| "step app Batal = (if showModal app then app\<lparr>showModal := False\<rparr> else app)"
| "step app (Simpan r h) =
     (if \<not> showModal app then app
      else (case Modal_handleSave r h of
              Inl err \<Rightarrow> app
            | Inr cfg \<Rightarrow> (App_handleSave cfg app)\<lparr>showModal := False\<rparr>))"

definition run :: "stored \<Rightarrow> event list \<Rightarrow> App" where
  "run st evs = foldl step (mountEffect (initialApp st)) evs"

text \<open>The two configurations handed to \<open>TimerWITA\<close>.\<close>

definition restAt_of :: "App \<Rightarrow> TimeCfg" where
  "restAt_of app = parseTimeToCfg (rest (userCfg app)) ''Waktunya istirahat''"

definition homeAt_of :: "App \<Rightarrow> TimeCfg" where
  "homeAt_of app = parseTimeToCfg (home (userCfg app)) ''Waktunya pulang''"

section \<open>The mount effect on stored values of any JSON type\<close>

text \<open>The values that \<open>JSON.parse\<close> returns. A number is modelled by an integer: the
  text of any number consists of digits, a sign, a point, an exponent or \<open>Infinity\<close>, and
  never holds a colon. An object is the list of its own properties, each key once.\<close>

datatype json = JNull | JBool bool | JNum int | JStr string | JArr "json list"
  | JObj "(string \<times> json) list"

datatype thrown = TypeError

text \<open>\<open>Array.prototype.join\<close> with the separator \<open>,\<close> on the texts of the elements;
  \<open>None\<close> is a conversion that throws.\<close>

fun join_js :: "string option list \<Rightarrow> string option" where
  "join_js [] = Some []"
| "join_js [x] = x"
| "join_js (x # y # ys) =
     (case x of
        None \<Rightarrow> None
      | Some s \<Rightarrow> (case join_js (y # ys) of None \<Rightarrow> None | Some r \<Rightarrow> Some (s @ '','' @ r)))"

text \<open>The conversion of a value to a string, as \<open>RegExp.prototype.test\<close> applies it to
  its argument. An array is the join of its elements, \<open>null\<close> elements giving the empty
  text. An object gives \<open>[object Object]\<close>, unless it has an own property \<open>toString\<close>:
  that property is not a function, the inherited \<open>valueOf\<close> returns the object itself,
  and the conversion throws a \<open>TypeError\<close> (\<open>None\<close>).\<close>

fun toStr :: "json \<Rightarrow> string option" where
  "toStr JNull = Some ''null''"
| "toStr (JBool b) = Some (if b then ''true'' else ''false'')"
| "toStr (JNum n) = Some (String_of n)"
| "toStr (JStr s) = Some s"
| "toStr (JArr xs) = join_js (map (\<lambda>x. case x of JNull \<Rightarrow> Some [] | _ \<Rightarrow> toStr x) xs)"
| "toStr (JObj kvs) =
     (if ''toString'' \<in> fst ` set kvs then None else Some ''[object Object]'')"

text \<open>\<open>isValidTimeStr(x)\<close> on a value \<open>x\<close> that may be \<open>undefined\<close> (\<open>None\<close>); the result
  \<open>None\<close> is a thrown \<open>TypeError\<close>.\<close>

definition test_js :: "json option \<Rightarrow> bool option" where
  "test_js x =
     (case x of
        None \<Rightarrow> Some (isValidTimeStr ''undefined'')
      | Some v \<Rightarrow> map_option isValidTimeStr (toStr v))"

text \<open>\<open>parsed.rest\<close> and \<open>parsed.home\<close>: reading a property of \<open>null\<close> throws; an object
  gives its own property or \<open>undefined\<close>; every other value gives \<open>undefined\<close>.\<close>

fun property :: "json \<Rightarrow> string \<Rightarrow> thrown + json option" where
  "property JNull k = Inl TypeError"
| "property (JObj kvs) k = Inr (map_of kvs k)"
| "property v k = Inr None"

text \<open>What the mount effect reads: \<open>getItem\<close> throws; it returns \<open>null\<close> or the empty
  string; \<open>JSON.parse\<close> throws; or \<open>JSON.parse\<close> returns a value.\<close>

datatype storage_read = GetItemThrows | NoItem | ParseThrows | ParsedValue json

text \<open>The state after the mount effect: the two fields of \<open>userCfg\<close>, which hold the
  stored values as they are, and \<open>showModal\<close>. The \<open>catch\<close> branch (\<open>fallback\<close>) and the
  first visit leave the same state: the defaults, with the modal open.\<close>

record Loaded =
  cfg_rest :: "json option"
  cfg_home :: "json option"
  modal :: bool

definition fallback :: Loaded where
  "fallback = \<lparr>cfg_rest = Some (JStr ''11:30''), cfg_home = Some (JStr ''16:00''), modal = True\<rparr>"

definition loadStored :: "storage_read \<Rightarrow> Loaded" where
  "loadStored rd =
     (case rd of
        GetItemThrows \<Rightarrow> fallback
      | NoItem \<Rightarrow> \<lparr>cfg_rest = Some (JStr ''11:30''), cfg_home = Some (JStr ''16:00''), modal = True\<rparr>
      | ParseThrows \<Rightarrow> fallback
      | ParsedValue parsed \<Rightarrow>
          (case property parsed ''rest'' of
             Inl e \<Rightarrow> fallback
           | Inr r \<Rightarrow>
          (case test_js r of
             None \<Rightarrow> fallback
           | Some okr \<Rightarrow>
          (case property parsed ''home'' of
             Inl e \<Rightarrow> fallback
           | Inr h \<Rightarrow>
          (case test_js h of
             None \<Rightarrow> fallback
           | Some okh \<Rightarrow>
               \<lparr>cfg_rest = (if okr then r else Some (JStr ''11:30'')),
                cfg_home = (if okh then h else Some (JStr ''16:00'')),
                modal = False\<rparr>)))))"

text \<open>\<open>parseTimeToCfg(t, label)\<close> on a state value: \<open>t.split\<close> exists for a string only,
  and the call throws for every other value.\<close>

definition parseTimeToCfg_js :: "json option \<Rightarrow> string \<Rightarrow> thrown + TimeCfg" where
  "parseTimeToCfg_js t lbl =
     (case t of Some (JStr s) \<Rightarrow> Inr (parseTimeToCfg s lbl) | _ \<Rightarrow> Inl TypeError)"


section \<open>Notions for stating the properties\<close>

text \<open>A text of the shape \<open>dd:dd:dd\<close>, and the number that its two digits at position
  \<open>i\<close> denote.\<close>

definition is_HHMMSS :: "string \<Rightarrow> bool" where
  "is_HHMMSS t =
     (case t of
        [a, b, c, d, e, f, g, h] \<Rightarrow>
          isDigit a \<and> isDigit b \<and> c = CHR '':'' \<and> isDigit d \<and> isDigit e \<and> f = CHR '':''
          \<and> isDigit g \<and> isDigit h
      | _ \<Rightarrow> False)"

definition field2 :: "string \<Rightarrow> nat \<Rightarrow> int" where
  "field2 t i = digits_value (take 2 (drop i t))"

text \<open>The text that \<open>formatDiff\<close> builds from three fields below 100, digit by digit.\<close>

definition hms_text :: "int \<Rightarrow> int \<Rightarrow> int \<Rightarrow> string" where
  "hms_text h m s =
     [digit_char (nat h div 10), digit_char (nat h mod 10), CHR '':'',
      digit_char (nat m div 10), digit_char (nat m mod 10), CHR '':'',
      digit_char (nat s div 10), digit_char (nat s mod 10)]"

text \<open>The anchor of the progress bar: 08:00:00 on the calendar day of the target.\<close>

definition anchor :: "Date \<Rightarrow> Date" where
  "anchor target = Day target * msPerDay + 8 * 3600000"

text \<open>Inputs of the examples: a configuration with a target before the anchor, a locale
  formatter that prints nothing, and 09:00:00 on a Saturday and on a Sunday (the third and
  fourth day of the time line).\<close>

definition sat_0900 :: Date where
  "sat_0900 = 2 * 86400000 + 9 * 3600000"

definition sun_0900 :: Date where
  "sun_0900 = 3 * 86400000 + 9 * 3600000"

definition cfg_0700 :: TimeCfg where
  "cfg_0700 = \<lparr>hours = 7, minutes = 0, label = ''Waktunya istirahat''\<rparr>"

definition plain :: "Date \<Rightarrow> string" where
  "plain d = []"

section \<open>Digits and the countdown text\<close>

lemma digit_char_ok: "d < 10 \<Longrightarrow> isDigit (digit_char d) \<and> digit_val (digit_char d) = int d"
proof -
  assume "d < 10"
  then have "d \<in> {0,1,2,3,4,5,6,7,8,9}" by auto
  then show ?thesis
    by (auto simp: digit_char_def isDigit_def digit_val_def)
qed

lemma pad2_digits10: "n < 100 \<Longrightarrow> padStart 2 ''0'' (digits10 n) = [digit_char (n div 10), digit_char (n mod 10)]"
proof (cases "n < 10")
  case True
  then show ?thesis by (simp add: digits10.simps[of n] padStart_def digit_char_def)
next
  case False
  assume "n < 100"
  with False have "n div 10 < 10" by simp
  with False show ?thesis
    by (simp add: digits10.simps[of n] digits10.simps[of "n div 10"] padStart_def)
qed

lemma pad2_String_of:
  assumes "0 \<le> v" "v < 100"
  shows "padStart 2 ''0'' (String_of v) = [digit_char (nat v div 10), digit_char (nat v mod 10)]"
  using assms by (simp add: String_of_def pad2_digits10)

lemma two_digits_value:
  assumes "0 \<le> v" "v < 100"
  shows "digit_val (digit_char (nat v div 10)) * 10 + digit_val (digit_char (nat v mod 10)) = v"
proof -
  have a: "nat v div 10 < 10" using assms by simp
  have b: "nat v mod 10 < 10" by simp
  have "int (nat v div 10) * 10 + int (nat v mod 10) = v"
    using assms by (simp add: zdiv_int zmod_int)
  then show ?thesis using digit_char_ok[OF a] digit_char_ok[OF b] by simp
qed

lemma two_digits_isDigit:
  assumes "0 \<le> v" "v < 100"
  shows "isDigit (digit_char (nat v div 10)) \<and> isDigit (digit_char (nat v mod 10))"
proof -
  have a: "nat v div 10 < 10" using assms by simp
  have b: "nat v mod 10 < 10" by simp
  show ?thesis using digit_char_ok[OF a] digit_char_ok[OF b] by simp
qed

lemma hms_text_read:
  assumes "0 \<le> h" "h < 100" "0 \<le> m" "m < 100" "0 \<le> s" "s < 100"
  shows "is_HHMMSS (hms_text h m s)" "field2 (hms_text h m s) 0 = h"
    "field2 (hms_text h m s) 3 = m" "field2 (hms_text h m s) 6 = s"
  using two_digits_value[OF assms(1,2)] two_digits_value[OF assms(3,4)] two_digits_value[OF assms(5,6)]
    two_digits_isDigit[OF assms(1,2)] two_digits_isDigit[OF assms(3,4)] two_digits_isDigit[OF assms(5,6)]
  by (simp_all add: is_HHMMSS_def hms_text_def field2_def digits_value_def)

lemma formatDiff_eq:
  "formatDiff ms =
     \<lparr>text_str = hms_text (max 0 (ms div 1000) mod 86400 div 3600)
                          (max 0 (ms div 1000) mod 86400 mod 3600 div 60)
                          (max 0 (ms div 1000) mod 86400 mod 3600 mod 60),
      days = max 0 (ms div 1000) div 86400\<rparr>"
proof -
  let ?t = "max 0 (ms div 1000)"
  have h: "0 \<le> ?t mod 86400 div 3600" "?t mod 86400 div 3600 < 100"
    by (simp_all add: pos_imp_zdiv_nonneg_iff) 
  have m: "0 \<le> ?t mod 86400 mod 3600 div 60" "?t mod 86400 mod 3600 div 60 < 100"
    by (simp_all add: pos_imp_zdiv_nonneg_iff)
  have s: "0 \<le> ?t mod 86400 mod 3600 mod 60" "?t mod 86400 mod 3600 mod 60 < 100"
    by simp_all
  show ?thesis
    unfolding formatDiff_def Let_def hms_text_def
    by (simp only: pad2_String_of[OF h] pad2_String_of[OF m] pad2_String_of[OF s]
        append_Cons append_Nil)
qed

lemma formatDiff_zero: "ms < 1000 \<Longrightarrow> formatDiff ms = \<lparr>text_str = ''00:00:00'', days = 0\<rparr>"
proof -
  assume "ms < 1000"
  then have "ms div 1000 \<le> 0" by simp
  then have "max 0 (ms div 1000) = 0" by simp
  then show ?thesis
    unfolding formatDiff_eq by (simp add: hms_text_def digit_char_def)
qed

lemma hms_sum:
  fixes t :: int
  shows "t div 86400 * 86400 + t mod 86400 div 3600 * 3600 + t mod 86400 mod 3600 div 60 * 60
           + t mod 86400 mod 3600 mod 60 = t"
proof -
  have "t mod 86400 mod 3600 div 60 * 60 + t mod 86400 mod 3600 mod 60 = t mod 86400 mod 3600"
    by simp
  moreover have "t mod 86400 div 3600 * 3600 + t mod 86400 mod 3600 = t mod 86400"
    by simp
  moreover have "t div 86400 * 86400 + t mod 86400 = t"
    by simp
  ultimately show ?thesis by linarith
qed

lemma formatDiff_fields:
  "is_HHMMSS (text_str (formatDiff ms)) \<and>
   0 \<le> field2 (text_str (formatDiff ms)) 0 \<and> field2 (text_str (formatDiff ms)) 0 \<le> 23 \<and>
   0 \<le> field2 (text_str (formatDiff ms)) 3 \<and> field2 (text_str (formatDiff ms)) 3 \<le> 59 \<and>
   0 \<le> field2 (text_str (formatDiff ms)) 6 \<and> field2 (text_str (formatDiff ms)) 6 \<le> 59 \<and>
   0 \<le> days (formatDiff ms) \<and>
   days (formatDiff ms) * 86400 + field2 (text_str (formatDiff ms)) 0 * 3600
     + field2 (text_str (formatDiff ms)) 3 * 60 + field2 (text_str (formatDiff ms)) 6
     = max 0 (ms div 1000) \<and>
   (ms \<le> 0 \<longrightarrow> text_str (formatDiff ms) = ''00:00:00'' \<and> days (formatDiff ms) = 0)"
proof -
  let ?t = "max 0 (ms div 1000)"
  let ?h = "?t mod 86400 div 3600"
  let ?m = "?t mod 86400 mod 3600 div 60"
  let ?s = "?t mod 86400 mod 3600 mod 60"
  have h: "0 \<le> ?h" "?h \<le> 23" by (simp_all add: pos_imp_zdiv_nonneg_iff)
  have m: "0 \<le> ?m" "?m \<le> 59" by (simp_all add: pos_imp_zdiv_nonneg_iff)
  have s: "0 \<le> ?s" "?s \<le> 59" by simp_all
  have h': "?h < 100" using h by linarith
  have m': "?m < 100" using m by linarith
  have s': "?s < 100" using s by linarith
  note rd = hms_text_read[OF h(1) h' m(1) m' s(1) s']
  have tx: "text_str (formatDiff ms) = hms_text ?h ?m ?s" and d: "days (formatDiff ms) = ?t div 86400"
    by (simp_all add: formatDiff_eq)
  have d0: "0 \<le> ?t div 86400" by (simp add: pos_imp_zdiv_nonneg_iff)
  have sum: "?t div 86400 * 86400 + ?h * 3600 + ?m * 60 + ?s = ?t" by (rule hms_sum)
  have z: "ms \<le> 0 \<longrightarrow> text_str (formatDiff ms) = ''00:00:00'' \<and> days (formatDiff ms) = 0"
    by (simp add: formatDiff_zero)
  show ?thesis
    apply (intro conjI)
    subgoal by (simp only: tx rd)
    subgoal by (simp only: tx rd h)
    subgoal by (simp only: tx rd h)
    subgoal by (simp only: tx rd m)
    subgoal by (simp only: tx rd m)
    subgoal by (simp only: tx rd s)
    subgoal by (simp only: tx rd s)
    subgoal by (simp only: d d0)
    subgoal by (simp only: tx rd d sum)
    subgoal by (rule z)
    done
qed

section \<open>Calendar days, targets and progress\<close>

lemma targetForDate_eq:
  "targetForDate h m now = Day now * msPerDay + (h * 3600000 + m * 60000)"
  by (simp add: targetForDate_def setHours_def)

lemma Day_bounds: "Day t * msPerDay \<le> t \<and> t < Day t * msPerDay + msPerDay"
proof -
  have "t = t div 86400000 * 86400000 + t mod 86400000" by simp
  moreover have "0 \<le> t mod 86400000" "t mod 86400000 < 86400000" by simp_all
  ultimately show ?thesis unfolding Day_def msPerDay_def by linarith
qed

lemma Day_add:
  assumes "0 \<le> r" "r < msPerDay"
  shows "Day (d * msPerDay + r) = d" "TimeWithinDay (d * msPerDay + r) = r"
  using assms by (simp_all add: Day_def TimeWithinDay_def msPerDay_def div_pos_pos_trivial)

lemma valid_time_within_day:
  assumes "0 \<le> h" "h \<le> 23" "0 \<le> m" "m \<le> (59::int)"
  shows "0 \<le> h * 3600000 + m * 60000" "h * 3600000 + m * 60000 < msPerDay"
  using assms by (simp_all add: msPerDay_def)

lemma tick_fields:
  "nowWita (tick cfg fmt now w old) = now"
  "targetToday (tick cfg fmt now w old) = targetForDate (hours cfg) (minutes cfg) now"
  "isCompleted (tick cfg fmt now w old) \<longleftrightarrow> targetForDate (hours cfg) (minutes cfg) now \<le> now"
  "diffText (tick cfg fmt now w old) =
     (if targetForDate (hours cfg) (minutes cfg) now \<le> now then ''00:00:00''
      else text_str (formatDiff (targetForDate (hours cfg) (minutes cfg) now - now)))"
  "progress (tick cfg fmt now w old) =
     (if targetForDate (hours cfg) (minutes cfg) now \<le> now then 100
      else progressToTarget (targetForDate (hours cfg) (minutes cfg) now) 8 w)"
  by (simp_all add: tick_def Let_def)

lemma dayStart_anchor: "dayStart_of target 8 witaNow = anchor target"
proof (cases "Day target = Day witaNow")
  case True
  then show ?thesis
    by (simp add: dayStart_of_def sameDateString_def setHours_def anchor_def)
next
  case False
  have r: "0 \<le> TimeWithinDay (setHours witaNow 8 0 0 0)"
    "TimeWithinDay (setHours witaNow 8 0 0 0) < msPerDay"
    by (simp_all add: TimeWithinDay_def msPerDay_def)
  have "Day (setFullYear_of (setHours witaNow 8 0 0 0) target) = Day target"
    unfolding setFullYear_of_def by (rule Day_add[OF r])
  with False show ?thesis
    by (simp add: dayStart_of_def sameDateString_def setHours_def[of "setFullYear_of _ _"] anchor_def Let_def)
qed

lemma quotient_of_finite:
  "quotient_of target startHour witaNow
     = D (of_int (100 * (span_of target startHour witaNow - done_of target startHour witaNow))
          / of_int (span_or_1 (span_of target startHour witaNow)))"
  by (simp add: quotient_of_def divide_js_def span_or_1_def)

lemma pct_of_finite:
  "pct_of target startHour witaNow
     = D (max 0 (min 100
          (of_int (100 * (span_of target startHour witaNow - done_of target startHour witaNow))
           / of_int (span_or_1 (span_of target startHour witaNow)))))"
  unfolding pct_of_def quotient_of_finite by (simp add: Math_min_def Math_max_def)

lemma progressToTarget_eq:
  "progressToTarget target startHour witaNow
     = max 0 (min 100
          (of_int (100 * (span_of target startHour witaNow - done_of target startHour witaNow))
           / of_int (span_or_1 (span_of target startHour witaNow))))"
  unfolding progressToTarget_def pct_of_finite by simp

lemma progressToTarget_range:
  "0 \<le> progressToTarget target startHour witaNow \<and> progressToTarget target startHour witaNow \<le> 100"
  by (simp add: progressToTarget_eq)

lemma progressToTarget_span_zero:
  "span_of target startHour witaNow = 0 \<Longrightarrow> progressToTarget target startHour witaNow = 0"
  by (simp add: progressToTarget_eq done_of_def)

lemma progressToTarget_before_anchor:
  assumes "witaNow \<le> anchor target" "anchor target \<le> target"
  shows "progressToTarget target 8 witaNow = 0"
proof -
  have "max 0 (min (target - witaNow) (target - anchor target)) = target - anchor target"
    using assms by simp
  then show ?thesis
    by (simp add: progressToTarget_eq span_of_def done_of_def dayStart_anchor)
qed

text \<open>Without the guard the division would not be finite at a zero span: the numerator is
  then zero as well.\<close>

lemma unguarded_zero_span: "divide_js (100 * (0 - max 0 (min d 0))) 0 = DNaN"
  by (simp add: divide_js_def)

text \<open>With a target before the anchor and not yet reached, the span is negative and the
  progress is 100: target 07:00, clock 06:00.\<close>

lemma negative_span_progress: "progressToTarget (targetForDate 7 0 0) 8 (6 * 3600000) = 100"
  by (simp add: progressToTarget_eq span_of_def done_of_def dayStart_anchor anchor_def
      targetForDate_eq Day_def msPerDay_def span_or_1_def)


text \<open>The examples of the specification: one second before a target at 16:00, and at
  the target.\<close>

lemma one_second_before_target:
  "diffText (tick DEFAULT_HOME plain 57599000 57599000 old) = ''00:00:01''
   \<and> \<not> isCompleted (tick DEFAULT_HOME plain 57599000 57599000 old)"
  by (simp add: tick_fields targetForDate_eq Day_def msPerDay_def DEFAULT_HOME_def formatDiff_eq
      hms_text_def digit_char_def)

lemma at_target:
  "isCompleted (tick DEFAULT_HOME plain 57600000 57600000 old)
   \<and> progress (tick DEFAULT_HOME plain 57600000 57600000 old) = 100"
  by (simp add: tick_fields targetForDate_eq Day_def msPerDay_def DEFAULT_HOME_def)


section \<open>The component\<close>

lemma saturday_cfg:
  "(homeAt :: TimeCfg)\<lparr>hours := 14, minutes := 0, label := l\<rparr> = \<lparr>hours = 14, minutes = 0, label = l\<rparr>"
  by (cases homeAt) simp

lemma TimerWITA_fields:
  "istirahat (TimerWITA restAt homeAt fmt nowR witaNowR oldR nowH witaNowH oldH)
     = tick restAt fmt nowR witaNowR oldR"
  "effectiveHome (TimerWITA restAt homeAt fmt nowR witaNowR oldR nowH witaNowH oldH)
     = (if getDay nowR = 6
        then \<lparr>hours = 14, minutes = 0, label = label homeAt @ '' (Sabtu)''\<rparr> else homeAt)"
  "pulang (TimerWITA restAt homeAt fmt nowR witaNowR oldR nowH witaNowH oldH)
     = tick (if getDay nowR = 6
             then \<lparr>hours = 14, minutes = 0, label = label homeAt @ '' (Sabtu)''\<rparr> else homeAt)
         fmt nowH witaNowH oldH"
  "sundayBadge (TimerWITA restAt homeAt fmt nowR witaNowR oldR nowH witaNowH oldH)
     \<longleftrightarrow> getDay nowR = 0"
  "clockLine (TimerWITA restAt homeAt fmt nowR witaNowR oldR nowH witaNowH oldH) = nowR"
  by (simp_all add: TimerWITA_def Let_def tick_fields saturday_cfg)

lemma TimerWITA_cards:
  "cards (TimerWITA restAt homeAt fmt nowR witaNowR oldR nowH witaNowH oldH)
     = (if getDay nowR = 0 then [HolidayCard, HolidayCard]
        else [Card ''Menuju Istirahat'' (formatBadgeTime (hours restAt) (minutes restAt))
                (tick restAt fmt nowR witaNowR oldR) Amber,
              Card ''Menuju Pulang''
                (if getDay nowR = 6 then formatBadgeTime 14 0
                 else formatBadgeTime (hours homeAt) (minutes homeAt))
                (tick (if getDay nowR = 6
                       then \<lparr>hours = 14, minutes = 0, label = label homeAt @ '' (Sabtu)''\<rparr>
                       else homeAt) fmt nowH witaNowH oldH) Emerald])"
  "footer (TimerWITA restAt homeAt fmt nowR witaNowR oldR nowH witaNowH oldH)
     = (if getDay nowR = 0
        then ''Hari Minggu dianggap libur. Countdown kerja akan aktif kembali saat hari berganti (00:00 WITA).''
        else ''Setelah target lewat, status tetap Selesai sampai hari berganti (00:00 WITA).'')"
  by (simp_all add: TimerWITA_def Let_def tick_fields saturday_cfg)

lemma badge_1400: "formatBadgeTime 14 0 = ''14:00 WITA''"
  by (simp add: formatBadgeTime_def pad2_String_of digit_char_def)


lemma completed_card:
  assumes "isCompleted (tick cfg fmt now w old)"
  shows "bigText (Card title badge (tick cfg fmt now w old) acc) = bigText HolidayCard \<and>
         bigTextColor (Card title badge (tick cfg fmt now w old) acc) = bigTextColor HolidayCard \<and>
         barWidth (Card title badge (tick cfg fmt now w old) acc) = barWidth HolidayCard \<and>
         barClass (Card title badge (tick cfg fmt now w old) acc) = barClass HolidayCard"
  using assms by (simp add: Card_def HolidayCard_def tick_fields)



section \<open>The configuration layer\<close>

lemma clamp_hours:
  "0 \<le> (case finite_value h of Some v \<Rightarrow> min 23 (max 0 v) | None \<Rightarrow> 0)
   \<and> (case finite_value h of Some v \<Rightarrow> min 23 (max 0 v) | None \<Rightarrow> 0) \<le> 23"
  by (simp split: option.split)

lemma clamp_minutes:
  "0 \<le> (case finite_value m of Some v \<Rightarrow> min 59 (max 0 v) | None \<Rightarrow> 0)
   \<and> (case finite_value m of Some v \<Rightarrow> min 59 (max 0 v) | None \<Rightarrow> 0) \<le> 59"
  by (simp split: option.split)

lemma parseTimeToCfg_range:
  "0 \<le> hours (parseTimeToCfg t lbl) \<and> hours (parseTimeToCfg t lbl) \<le> 23 \<and>
   0 \<le> minutes (parseTimeToCfg t lbl) \<and> minutes (parseTimeToCfg t lbl) \<le> 59 \<and>
   label (parseTimeToCfg t lbl) = lbl"
  using clamp_hours[of "element (map parseInt10 (split_on CHR '':'' t)) 0"]
    clamp_minutes[of "element (map parseInt10 (split_on CHR '':'' t)) 1"]
  by (simp add: parseTimeToCfg_def Let_def)

lemma mountEffect_valid:
  "isValidTimeStr (rest (userCfg (mountEffect (initialApp st)))) \<and>
   isValidTimeStr (home (userCfg (mountEffect (initialApp st))))"
  by (cases st) (simp_all add: mountEffect_def initialApp_def isValidTimeStr_def isDigit_def)

lemma step_valid:
  assumes "isValidTimeStr (rest (userCfg app)) \<and> isValidTimeStr (home (userCfg app))"
  shows "isValidTimeStr (rest (userCfg (step app ev))) \<and> isValidTimeStr (home (userCfg (step app ev)))"
  using assms by (cases ev) (simp_all add: Modal_handleSave_def App_handleSave_def)

lemma foldl_step_valid:
  "isValidTimeStr (rest (userCfg app)) \<and> isValidTimeStr (home (userCfg app)) \<Longrightarrow>
   isValidTimeStr (rest (userCfg (foldl step app evs))) \<and>
   isValidTimeStr (home (userCfg (foldl step app evs)))"
proof (induction evs arbitrary: app)
  case Nil
  then show ?case by simp
next
  case (Cons ev evs)
  from Cons.IH[OF step_valid[OF Cons.prems]] show ?case by simp
qed

lemma run_valid:
  "isValidTimeStr (rest (userCfg (run st evs))) \<and> isValidTimeStr (home (userCfg (run st evs)))"
  unfolding run_def by (rule foldl_step_valid[OF mountEffect_valid])


lemma isValidTimeStr_shape:
  "isValidTimeStr t \<longleftrightarrow>
     (\<exists>a b d e. t = [a, b, CHR '':'', d, e] \<and> isDigit a \<and> isDigit b \<and> isDigit d \<and> isDigit e)"
  by (auto simp: isValidTimeStr_def split: list.splits)

lemma digit_not_special:
  assumes "isDigit a"
  shows "a \<noteq> CHR '':''" "a \<noteq> CHR ''-''" "a \<noteq> CHR ''+''" "\<not> ws1 a" "\<not> ws2 a b"
    "0 \<le> digit_val a" "digit_val a \<le> 9"
  using assms by (auto simp: isDigit_def ws1_def ws2_def digit_val_def)

lemma parseInt10_two_digits:
  assumes "isDigit a" "isDigit b"
  shows "parseInt10 [a, b] = Num (digit_val a * 10 + digit_val b)"
proof -
  note da = digit_not_special[OF assms(1)] and db = digit_not_special[OF assms(2)]
  have sk: "skip_ws [a, b] = [a, b]" using da(4,5) by simp
  have small: "digit_val a * 10 + digit_val b < 100" "- 100 < digit_val a * 10 + digit_val b"
    using da(6,7) db(6,7) by linarith+
  have big: "(100::int) \<le> 2 ^ 1024 - 2 ^ 970" by simp
  have "toNumber (digit_val a * 10 + digit_val b) = Num (digit_val a * 10 + digit_val b)"
    unfolding toNumber_def using small big by simp
  then show ?thesis
    unfolding parseInt10_def sk
    using assms da(2,3) by (simp add: Let_def digits_value_def)
qed

lemma parseTimeToCfg_valid:
  assumes "isValidTimeStr t"
  shows "hours (parseTimeToCfg t lbl) = min 23 (field2 t 0) \<and>
         minutes (parseTimeToCfg t lbl) = min 59 (field2 t 3)"
proof -
  from assms obtain a b d e where t: "t = [a, b, CHR '':'', d, e]"
    and dg: "isDigit a" "isDigit b" "isDigit d" "isDigit e"
    unfolding isValidTimeStr_shape by blast
  have sp: "split_on CHR '':'' t = [[a, b], [d, e]]"
    unfolding t using digit_not_special(1)[OF dg(1)] digit_not_special(1)[OF dg(2)]
      digit_not_special(1)[OF dg(3)] digit_not_special(1)[OF dg(4)] by simp
  have f: "field2 t 0 = digit_val a * 10 + digit_val b" "field2 t 3 = digit_val d * 10 + digit_val e"
    unfolding t by (simp_all add: field2_def digits_value_def)
  have nn: "0 \<le> digit_val a * 10 + digit_val b" "0 \<le> digit_val d * 10 + digit_val e"
    using digit_not_special(6)[OF dg(1)] digit_not_special(6)[OF dg(2)]
      digit_not_special(6)[OF dg(3)] digit_not_special(6)[OF dg(4)] by linarith+
  show ?thesis
    using nn
    by (simp add: parseTimeToCfg_def Let_def sp element_def f
        parseInt10_two_digits[OF dg(1,2)] parseInt10_two_digits[OF dg(3,4)])
qed

lemma parse_9999: "isValidTimeStr ''99:99'' \<and> parseTimeToCfg ''99:99'' lbl = \<lparr>hours = 23, minutes = 59, label = lbl\<rparr>"
proof -
  have v: "isValidTimeStr ''99:99''" by (simp add: isValidTimeStr_def isDigit_def)
  have "field2 ''99:99'' 0 = 99" "field2 ''99:99'' 3 = 99"
    by (simp_all add: field2_def digits_value_def digit_val_def)
  with parseTimeToCfg_valid[OF v, of lbl] parseTimeToCfg_range[of "''99:99''" lbl]
  have "hours (parseTimeToCfg ''99:99'' lbl) = 23 \<and> minutes (parseTimeToCfg ''99:99'' lbl) = 59
    \<and> label (parseTimeToCfg ''99:99'' lbl) = lbl" by simp
  then have "parseTimeToCfg ''99:99'' lbl = \<lparr>hours = 23, minutes = 59, label = lbl\<rparr>"
    by (cases "parseTimeToCfg ''99:99'' lbl") simp
  with v show ?thesis by simp
qed

lemma step_reject:
  "\<not> isValidTimeStr r \<or> \<not> isValidTimeStr h \<Longrightarrow> step app (Simpan r h) = app"
  by (auto simp: Modal_handleSave_def)

section \<open>The mount effect on any stored value\<close>





text \<open>A stored field that is not a string but whose text matches is kept as it is, and
  \<open>parseTimeToCfg\<close> throws on it when the page is rendered.\<close>

lemma stored_array_kept:
  "loadStored (ParsedValue (JObj [(''rest'', JArr [JStr ''12:30'']), (''home'', JStr ''16:00'')]))
     = \<lparr>cfg_rest = Some (JArr [JStr ''12:30'']), cfg_home = Some (JStr ''16:00''), modal = False\<rparr>
   \<and> parseTimeToCfg_js (Some (JArr [JStr ''12:30''])) lbl = Inl TypeError"
  by (simp add: loadStored_def test_js_def isValidTimeStr_def isDigit_def parseTimeToCfg_js_def)


section \<open>Properties of the countdown\<close>

text \<open>
  C1. For every valid configuration (hours in 0..23, minutes in 0..59) and every instant
  \<open>now\<close>, the snapshot that \<open>tick\<close> publishes has as target the calendar day of \<open>now\<close>
  at the configured hours and minutes, seconds and milliseconds zero; it is completed
  exactly when \<open>now\<close> has reached the target; the remaining duration shown is
  \<open>max(0, target - now)\<close>: the text is the formatted \<open>max(0, target - now)\<close>, it has the
  shape \<open>dd:dd:dd\<close> with no whole day left out, and its hours, minutes and seconds
  fields read back as the whole seconds of \<open>max(0, target - now)\<close>; and whenever the
  snapshot is completed, the remaining duration is zero and the text is \<open>00:00:00\<close>.
  Instants are local time values of a zone with a constant offset, as laid down for
  \<open>Date\<close> above.
\<close>

theorem countdown_completed:
  assumes "0 \<le> hours cfg" "hours cfg \<le> 23" "0 \<le> minutes cfg" "minutes cfg \<le> 59"
  shows "targetToday (tick cfg fmt now witaNow old)
           = Day now * msPerDay + (hours cfg * 3600000 + minutes cfg * 60000) \<and>
         Day (targetToday (tick cfg fmt now witaNow old)) = Day now \<and>
         TimeWithinDay (targetToday (tick cfg fmt now witaNow old))
           = hours cfg * 3600000 + minutes cfg * 60000 \<and>
         (isCompleted (tick cfg fmt now witaNow old)
            \<longleftrightarrow> targetToday (tick cfg fmt now witaNow old) \<le> now) \<and>
         diffText (tick cfg fmt now witaNow old)
           = text_str (formatDiff (max 0 (targetToday (tick cfg fmt now witaNow old) - now))) \<and>
         days (formatDiff (max 0 (targetToday (tick cfg fmt now witaNow old) - now))) = 0 \<and>
         is_HHMMSS (diffText (tick cfg fmt now witaNow old)) \<and>
         field2 (diffText (tick cfg fmt now witaNow old)) 0 * 3600
           + field2 (diffText (tick cfg fmt now witaNow old)) 3 * 60
           + field2 (diffText (tick cfg fmt now witaNow old)) 6
           = max 0 (targetToday (tick cfg fmt now witaNow old) - now) div 1000 \<and>
         (isCompleted (tick cfg fmt now witaNow old)
            \<longrightarrow> max 0 (targetToday (tick cfg fmt now witaNow old) - now) = 0
                \<and> diffText (tick cfg fmt now witaNow old) = ''00:00:00'')"
proof -
  let ?target = "targetForDate (hours cfg) (minutes cfg) now"
  let ?r = "max 0 (?target - now)"
  note v = valid_time_within_day[OF assms]
  have t: "?target = Day now * msPerDay + (hours cfg * 3600000 + minutes cfg * 60000)"
    by (rule targetForDate_eq)
  have d: "Day ?target = Day now"
    "TimeWithinDay ?target = hours cfg * 3600000 + minutes cfg * 60000"
    unfolding t using Day_add[OF v] by simp_all
  have z: "?target \<le> now \<Longrightarrow> text_str (formatDiff ?r) = ''00:00:00''"
    by (simp add: formatDiff_zero)
  have dt: "diffText (tick cfg fmt now witaNow old) = text_str (formatDiff ?r)"
  proof (cases "?target \<le> now")
    case True
    then show ?thesis using z by (simp add: tick_fields)
  next
    case False
    then have "?r = ?target - now" by simp
    with False show ?thesis by (simp add: tick_fields)
  qed
  have "?target - now < msPerDay" using Day_bounds[of now] v unfolding t by linarith
  then have "?r < msPerDay" by (simp add: msPerDay_def)
  then have small: "?r div 1000 < 86400" by (simp add: msPerDay_def)
  have pos: "0 \<le> ?r div 1000" by (simp add: pos_imp_zdiv_nonneg_iff)
  have mx: "max 0 (?r div 1000) = ?r div 1000" using pos by simp
  have d0: "days (formatDiff ?r) = 0"
    using small pos by (simp add: formatDiff_eq mx div_pos_pos_trivial)
  note f = formatDiff_fields[of ?r, unfolded mx d0]
  have shape: "is_HHMMSS (text_str (formatDiff ?r))" using f by blast
  have sum: "field2 (text_str (formatDiff ?r)) 0 * 3600 + field2 (text_str (formatDiff ?r)) 3 * 60
      + field2 (text_str (formatDiff ?r)) 6 = ?r div 1000"
    using f by simp
  show ?thesis
    apply (intro conjI)
    subgoal by (simp only: tick_fields t)
    subgoal by (simp only: tick_fields d)
    subgoal by (simp only: tick_fields d)
    subgoal by (simp only: tick_fields)
    subgoal by (simp only: dt tick_fields(2))
    subgoal by (simp only: tick_fields(2) d0)
    subgoal by (simp only: dt shape)
    subgoal by (simp only: dt tick_fields(2) sum)
    subgoal by (simp add: tick_fields)
    done
qed

theorem countdown_completed_witness:
  "isCompleted (tick DEFAULT_HOME plain 57600000 57600000
      (initialState DEFAULT_HOME plain 57600000 57600000))
   \<and> diffText (tick DEFAULT_HOME plain 57600000 57600000
      (initialState DEFAULT_HOME plain 57600000 57600000)) = ''00:00:00''
   \<and> \<not> isCompleted (tick DEFAULT_HOME plain 57599000 57599000
      (initialState DEFAULT_HOME plain 57599000 57599000))
   \<and> field2 (diffText (tick DEFAULT_HOME plain 57599000 57599000
        (initialState DEFAULT_HOME plain 57599000 57599000))) 0 * 3600
     + field2 (diffText (tick DEFAULT_HOME plain 57599000 57599000
        (initialState DEFAULT_HOME plain 57599000 57599000))) 3 * 60
     + field2 (diffText (tick DEFAULT_HOME plain 57599000 57599000
        (initialState DEFAULT_HOME plain 57599000 57599000))) 6 = 1"
proof -
  let ?st = "tick DEFAULT_HOME plain 57600000 57600000
      (initialState DEFAULT_HOME plain 57600000 57600000)"
  let ?st' = "tick DEFAULT_HOME plain 57599000 57599000
      (initialState DEFAULT_HOME plain 57599000 57599000)"
  have v: "0 \<le> hours DEFAULT_HOME" "hours DEFAULT_HOME \<le> 23"
    "0 \<le> minutes DEFAULT_HOME" "minutes DEFAULT_HOME \<le> 59"
    by (simp_all add: DEFAULT_HOME_def)
  note r = countdown_completed[OF v, of plain 57600000 57600000
      "initialState DEFAULT_HOME plain 57600000 57600000"]
  from r have "targetToday ?st = 57600000"
    by (simp add: Day_def msPerDay_def DEFAULT_HOME_def)
  with r have c: "isCompleted ?st" by simp
  with r have a: "isCompleted ?st \<and> diffText ?st = ''00:00:00''" by blast
  note r' = countdown_completed[OF v, of plain 57599000 57599000
      "initialState DEFAULT_HOME plain 57599000 57599000"]
  from r' have t': "targetToday ?st' = 57600000"
    by (simp add: Day_def msPerDay_def DEFAULT_HOME_def)
  from r' have n: "\<not> isCompleted ?st'" unfolding t' by simp
  from r' have "field2 (diffText ?st') 0 * 3600 + field2 (diffText ?st') 3 * 60
      + field2 (diffText ?st') 6 = max 0 (targetToday ?st' - 57599000) div 1000"
    by blast
  then have s: "field2 (diffText ?st') 0 * 3600 + field2 (diffText ?st') 3 * 60
      + field2 (diffText ?st') 6 = 1"
    unfolding t' by simp
  from a n s show ?thesis by blast
qed

text \<open>
  C2 (as amended). For every configuration and all clock readings, the progress lies in
  0..100; it is 100 whenever the snapshot is completed; and it is 0 whenever the snapshot
  is not completed, the clock reading of the progress computation is at or before the
  anchor (08:00:00 on the calendar day of the target) and the target is not before the
  anchor.
\<close>

theorem progress_bounds:
  "0 \<le> progress (tick cfg fmt now witaNow old) \<and>
   progress (tick cfg fmt now witaNow old) \<le> 100 \<and>
   (isCompleted (tick cfg fmt now witaNow old) \<longrightarrow> progress (tick cfg fmt now witaNow old) = 100) \<and>
   (\<not> isCompleted (tick cfg fmt now witaNow old)
      \<and> witaNow \<le> anchor (targetToday (tick cfg fmt now witaNow old))
      \<and> anchor (targetToday (tick cfg fmt now witaNow old)) \<le> targetToday (tick cfg fmt now witaNow old)
    \<longrightarrow> progress (tick cfg fmt now witaNow old) = 0)"
  using progressToTarget_range[of "targetForDate (hours cfg) (minutes cfg) now" 8 witaNow]
    progressToTarget_before_anchor[of witaNow "targetForDate (hours cfg) (minutes cfg) now"]
  by (simp add: tick_fields)

theorem progress_bounds_witness:
  "\<not> isCompleted (tick DEFAULT_HOME plain 25200000 25200000 (initialState DEFAULT_HOME plain 25200000 25200000))
   \<and> progress (tick DEFAULT_HOME plain 25200000 25200000 (initialState DEFAULT_HOME plain 25200000 25200000)) = 0"
proof -
  let ?st = "tick DEFAULT_HOME plain 25200000 25200000 (initialState DEFAULT_HOME plain 25200000 25200000)"
  have t: "targetToday ?st = 57600000"
    by (simp add: tick_fields targetForDate_eq Day_def msPerDay_def DEFAULT_HOME_def)
  have nc: "\<not> isCompleted ?st"
    by (simp add: tick_fields targetForDate_eq Day_def msPerDay_def DEFAULT_HOME_def)
  have a: "anchor (targetToday ?st) = 28800000"
    unfolding t by (simp add: anchor_def Day_def msPerDay_def)
  have "progress ?st = 0"
    using progress_bounds[of DEFAULT_HOME plain 25200000 25200000
        "initialState DEFAULT_HOME plain 25200000 25200000"] nc
    unfolding a unfolding t by simp
  with nc show ?thesis by simp
qed

text \<open>
  The claim as stated, progress 0 whenever \<open>now\<close> is at or before the anchor, fails for a
  target before the anchor: with the target at 07:00 and the clock at 07:30 of the same
  day, the snapshot is completed and the progress is 100.
\<close>

theorem progress_before_anchor_counterexample:
  "\<not> (27000000 \<le> anchor (targetToday (tick cfg_0700 plain 27000000 27000000 (initialState cfg_0700 plain 27000000 27000000)))
       \<longrightarrow> progress (tick cfg_0700 plain 27000000 27000000 (initialState cfg_0700 plain 27000000 27000000)) = 0)"
  by (simp add: tick_fields targetForDate_eq Day_def msPerDay_def cfg_0700_def anchor_def)

text \<open>
  C3 (as amended). For every configured home schedule and every instant of the rest
  countdown that falls on a Saturday, the effective home schedule is 14:00 whatever the
  configured hours and minutes, so the target of the home countdown is 14:00 of the day
  of its clock reading (of that Saturday when the reading lies on it); the home label is
  the configured label followed by the qualifier \<open>(Sabtu)\<close> after a space; and the rest
  schedule is used as configured, for its countdown and for its badge.
\<close>

theorem saturday_override:
  assumes "getDay nowR = 6"
  shows "effectiveHome (TimerWITA restAt homeAt fmt nowR witaNowR oldR nowH witaNowH oldH)
           = \<lparr>hours = 14, minutes = 0, label = label homeAt @ '' (Sabtu)''\<rparr> \<and>
         pulang (TimerWITA restAt homeAt fmt nowR witaNowR oldR nowH witaNowH oldH)
           = tick \<lparr>hours = 14, minutes = 0, label = label homeAt @ '' (Sabtu)''\<rparr>
               fmt nowH witaNowH oldH \<and>
         targetToday (pulang (TimerWITA restAt homeAt fmt nowR witaNowR oldR nowH witaNowH oldH))
           = Day nowH * msPerDay + 14 * 3600000 \<and>
         (Day nowH = Day nowR \<longrightarrow>
            Day (targetToday (pulang (TimerWITA restAt homeAt fmt nowR witaNowR oldR nowH witaNowH oldH)))
              = Day nowR \<and>
            TimeWithinDay (targetToday (pulang (TimerWITA restAt homeAt fmt nowR witaNowR oldR nowH witaNowH oldH)))
              = 14 * 3600000) \<and>
         istirahat (TimerWITA restAt homeAt fmt nowR witaNowR oldR nowH witaNowH oldH)
           = tick restAt fmt nowR witaNowR oldR \<and>
         targetToday (istirahat (TimerWITA restAt homeAt fmt nowR witaNowR oldR nowH witaNowH oldH))
           = targetForDate (hours restAt) (minutes restAt) nowR \<and>
         cards (TimerWITA restAt homeAt fmt nowR witaNowR oldR nowH witaNowH oldH)
           = [Card ''Menuju Istirahat'' (formatBadgeTime (hours restAt) (minutes restAt))
                (tick restAt fmt nowR witaNowR oldR) Amber,
              Card ''Menuju Pulang'' ''14:00 WITA''
                (tick \<lparr>hours = 14, minutes = 0, label = label homeAt @ '' (Sabtu)''\<rparr>
                   fmt nowH witaNowH oldH) Emerald]"
proof -
  have r: "(0::int) \<le> 50400000" "(50400000::int) < msPerDay"
    by (simp_all add: msPerDay_def)
  have t: "targetForDate 14 0 nowH = Day nowH * msPerDay + 50400000"
    by (simp add: targetForDate_eq)
  have d: "Day (x * msPerDay + 50400000) = x"
    "TimeWithinDay (x * msPerDay + 50400000) = 50400000" for x
    using Day_add[OF r] by simp_all
  show ?thesis
    using assms by (simp add: TimerWITA_fields TimerWITA_cards tick_fields t d badge_1400)
qed

theorem saturday_override_witness:
  "getDay sat_0900 = 6 \<and>
   effectiveHome (TimerWITA DEFAULT_REST DEFAULT_HOME plain sat_0900 sat_0900
       (initialState DEFAULT_REST plain sat_0900 sat_0900) sat_0900 sat_0900
       (initialState DEFAULT_HOME plain sat_0900 sat_0900))
     = \<lparr>hours = 14, minutes = 0, label = ''Waktunya pulang (Sabtu)''\<rparr>"
proof -
  have s: "getDay sat_0900 = 6"
    by (simp add: getDay_def Day_def msPerDay_def sat_0900_def)
  from saturday_override[OF s, of DEFAULT_REST DEFAULT_HOME plain sat_0900
      "initialState DEFAULT_REST plain sat_0900 sat_0900" sat_0900 sat_0900
      "initialState DEFAULT_HOME plain sat_0900 sat_0900"] s
  show ?thesis by (simp add: DEFAULT_HOME_def)
qed

text \<open>
  The claim as stated names the qualifier \<open>(Saturday)\<close>; the label that the code builds
  ends in \<open>(Sabtu)\<close>.
\<close>

theorem saturday_label_counterexample:
  "getDay sat_0900 = 6 \<and>
   label (effectiveHome (TimerWITA DEFAULT_REST DEFAULT_HOME plain sat_0900 sat_0900
       (initialState DEFAULT_REST plain sat_0900 sat_0900) sat_0900 sat_0900
       (initialState DEFAULT_HOME plain sat_0900 sat_0900)))
     \<noteq> label DEFAULT_HOME @ '' (Saturday)'' \<and>
   label (effectiveHome (TimerWITA DEFAULT_REST DEFAULT_HOME plain sat_0900 sat_0900
       (initialState DEFAULT_REST plain sat_0900 sat_0900) sat_0900 sat_0900
       (initialState DEFAULT_HOME plain sat_0900 sat_0900)))
     \<noteq> label DEFAULT_HOME @ ''(Saturday)''"
proof -
  have s: "getDay sat_0900 = 6"
    by (simp add: getDay_def Day_def msPerDay_def sat_0900_def)
  then show ?thesis by (simp add: TimerWITA_fields DEFAULT_HOME_def)
qed


text \<open>
  C4 (as amended). For every configured pair of schedules and every instant of the rest
  countdown that falls on a Sunday, what is rendered is the holiday card for both
  schedules: no target, the zero display \<open>00:00:00\<close> as the only countdown text, and the
  colours and the full bar of a completed card; the rendered cards, footer and clock line
  do not depend on the configured schedules. The two countdown hooks are still evaluated
  on a Sunday, on the schedules as configured; their snapshots are not rendered.
\<close>

theorem sunday_holiday:
  assumes "getDay nowR = 0"
  shows "cards (TimerWITA restAt homeAt fmt nowR witaNowR oldR nowH witaNowH oldH)
           = [HolidayCard, HolidayCard] \<and>
         sundayBadge (TimerWITA restAt homeAt fmt nowR witaNowR oldR nowH witaNowH oldH) \<and>
         (\<forall>c \<in> set (cards (TimerWITA restAt homeAt fmt nowR witaNowR oldR nowH witaNowH oldH)).
            bigText c = ''00:00:00'' \<and> barWidth c = 100 \<and>
            bigTextColor c = ''text-green-600 dark:text-green-400'' \<and>
            barClass c = ''bg-green-500 animate-pulse'') \<and>
         (isCompleted (tick cfg fmt now w old) \<longrightarrow>
            bigText (Card title badge (tick cfg fmt now w old) acc) = bigText HolidayCard \<and>
            bigTextColor (Card title badge (tick cfg fmt now w old) acc) = bigTextColor HolidayCard \<and>
            barWidth (Card title badge (tick cfg fmt now w old) acc) = barWidth HolidayCard \<and>
            barClass (Card title badge (tick cfg fmt now w old) acc) = barClass HolidayCard) \<and>
         cards (TimerWITA restAt' homeAt' fmt' nowR witaNowR' oldR' nowH' witaNowH' oldH')
           = cards (TimerWITA restAt homeAt fmt nowR witaNowR oldR nowH witaNowH oldH) \<and>
         footer (TimerWITA restAt' homeAt' fmt' nowR witaNowR' oldR' nowH' witaNowH' oldH')
           = footer (TimerWITA restAt homeAt fmt nowR witaNowR oldR nowH witaNowH oldH) \<and>
         clockLine (TimerWITA restAt' homeAt' fmt' nowR witaNowR' oldR' nowH' witaNowH' oldH')
           = clockLine (TimerWITA restAt homeAt fmt nowR witaNowR oldR nowH witaNowH oldH) \<and>
         istirahat (TimerWITA restAt homeAt fmt nowR witaNowR oldR nowH witaNowH oldH)
           = tick restAt fmt nowR witaNowR oldR \<and>
         pulang (TimerWITA restAt homeAt fmt nowR witaNowR oldR nowH witaNowH oldH)
           = tick homeAt fmt nowH witaNowH oldH"
  using assms completed_card[of cfg fmt now w old title badge acc]
  by (simp add: TimerWITA_fields TimerWITA_cards HolidayCard_def)

theorem sunday_holiday_witness:
  "getDay sun_0900 = 0 \<and>
   cards (TimerWITA DEFAULT_REST DEFAULT_HOME plain sun_0900 sun_0900
       (initialState DEFAULT_REST plain sun_0900 sun_0900) sun_0900 sun_0900
       (initialState DEFAULT_HOME plain sun_0900 sun_0900))
     = [HolidayCard, HolidayCard]"
proof -
  have s: "getDay sun_0900 = 0"
    by (simp add: getDay_def Day_def msPerDay_def sun_0900_def)
  from sunday_holiday[OF s, of DEFAULT_REST DEFAULT_HOME plain sun_0900
      "initialState DEFAULT_REST plain sun_0900 sun_0900" sun_0900 sun_0900
      "initialState DEFAULT_HOME plain sun_0900 sun_0900"] s
  show ?thesis by blast
qed

text \<open>
  The claim as stated says that no countdown is computed on a Sunday; at 09:00 on a
  Sunday the state of the home countdown holds the target 16:00 of that day and the
  remaining time \<open>07:00:00\<close>.
\<close>

theorem sunday_countdown_counterexample:
  "getDay sun_0900 = 0 \<and>
   \<not> isCompleted (pulang (TimerWITA DEFAULT_REST DEFAULT_HOME plain sun_0900 sun_0900
       (initialState DEFAULT_REST plain sun_0900 sun_0900) sun_0900 sun_0900
       (initialState DEFAULT_HOME plain sun_0900 sun_0900))) \<and>
   targetToday (pulang (TimerWITA DEFAULT_REST DEFAULT_HOME plain sun_0900 sun_0900
       (initialState DEFAULT_REST plain sun_0900 sun_0900) sun_0900 sun_0900
       (initialState DEFAULT_HOME plain sun_0900 sun_0900))) = 3 * 86400000 + 16 * 3600000 \<and>
   diffText (pulang (TimerWITA DEFAULT_REST DEFAULT_HOME plain sun_0900 sun_0900
       (initialState DEFAULT_REST plain sun_0900 sun_0900) sun_0900 sun_0900
       (initialState DEFAULT_HOME plain sun_0900 sun_0900))) = ''07:00:00''"
proof -
  have s: "getDay sun_0900 = 0"
    by (simp add: getDay_def Day_def msPerDay_def sun_0900_def)
  have t: "targetForDate 16 0 sun_0900 = 316800000"
    by (simp add: targetForDate_eq Day_def msPerDay_def sun_0900_def)
  have f: "text_str (formatDiff (316800000 - sun_0900)) = ''07:00:00''"
    by (simp add: sun_0900_def formatDiff_eq hms_text_def digit_char_def)
  have n: "\<not> (316800000 \<le> sun_0900)" by (simp add: sun_0900_def)
  show ?thesis
    using s n f by (simp add: TimerWITA_fields tick_fields DEFAULT_HOME_def t)
qed

text \<open>
  C5. For every snapshot that is not completed, of a valid configuration, the target lies
  on the calendar day of \<open>now\<close> and after \<open>now\<close>; the text shown is the formatted
  remaining duration \<open>target - now\<close>, with no whole day in it; the text has the shape
  \<open>dd:dd:dd\<close> with the hours field in 0..23 and the minutes and seconds fields in 0..59;
  and the three fields together are the whole seconds of the remaining duration.
\<close>

theorem remaining_text_fields:
  assumes "0 \<le> hours cfg" "hours cfg \<le> 23" "0 \<le> minutes cfg" "minutes cfg \<le> 59"
    and "\<not> isCompleted (tick cfg fmt now witaNow old)"
  shows "Day (targetToday (tick cfg fmt now witaNow old)) = Day now \<and>
         now < targetToday (tick cfg fmt now witaNow old) \<and>
         diffText (tick cfg fmt now witaNow old)
           = text_str (formatDiff (targetToday (tick cfg fmt now witaNow old) - now)) \<and>
         days (formatDiff (targetToday (tick cfg fmt now witaNow old) - now)) = 0 \<and>
         is_HHMMSS (diffText (tick cfg fmt now witaNow old)) \<and>
         0 \<le> field2 (diffText (tick cfg fmt now witaNow old)) 0 \<and>
         field2 (diffText (tick cfg fmt now witaNow old)) 0 \<le> 23 \<and>
         0 \<le> field2 (diffText (tick cfg fmt now witaNow old)) 3 \<and>
         field2 (diffText (tick cfg fmt now witaNow old)) 3 \<le> 59 \<and>
         0 \<le> field2 (diffText (tick cfg fmt now witaNow old)) 6 \<and>
         field2 (diffText (tick cfg fmt now witaNow old)) 6 \<le> 59 \<and>
         field2 (diffText (tick cfg fmt now witaNow old)) 0 * 3600
           + field2 (diffText (tick cfg fmt now witaNow old)) 3 * 60
           + field2 (diffText (tick cfg fmt now witaNow old)) 6
           = (targetToday (tick cfg fmt now witaNow old) - now) div 1000"
proof -
  let ?target = "targetForDate (hours cfg) (minutes cfg) now"
  let ?diff = "?target - now"
  note v = valid_time_within_day[OF assms(1-4)]
  have t: "?target = Day now * msPerDay + (hours cfg * 3600000 + minutes cfg * 60000)"
    by (rule targetForDate_eq)
  have d: "Day ?target = Day now"
    unfolding t using Day_add[OF v] by simp
  have lt: "now < ?target" using assms(5) by (simp add: tick_fields)
  have dt: "diffText (tick cfg fmt now witaNow old) = text_str (formatDiff ?diff)"
    using lt by (simp add: tick_fields)
  have "?diff < msPerDay" using Day_bounds[of now] v unfolding t by linarith
  then have small: "?diff div 1000 < 86400" by (simp add: msPerDay_def)
  have pos: "0 \<le> ?diff div 1000" using lt by (simp add: pos_imp_zdiv_nonneg_iff)
  have mx: "max 0 (?diff div 1000) = ?diff div 1000" using pos by simp
  note f = formatDiff_fields[of ?diff, unfolded mx]
  have d0: "days (formatDiff ?diff) = 0"
    using small pos by (simp add: formatDiff_eq mx div_pos_pos_trivial)
  show ?thesis
    unfolding tick_fields(2) dt using d lt f d0 by simp
qed

theorem remaining_text_fields_witness:
  "\<not> isCompleted (tick DEFAULT_HOME plain 57599000 57599000 (initialState DEFAULT_HOME plain 57599000 57599000))
   \<and> is_HHMMSS (diffText (tick DEFAULT_HOME plain 57599000 57599000 (initialState DEFAULT_HOME plain 57599000 57599000)))
   \<and> field2 (diffText (tick DEFAULT_HOME plain 57599000 57599000 (initialState DEFAULT_HOME plain 57599000 57599000))) 0 \<le> 23"
proof -
  let ?st = "tick DEFAULT_HOME plain 57599000 57599000 (initialState DEFAULT_HOME plain 57599000 57599000)"
  have v: "0 \<le> hours DEFAULT_HOME" "hours DEFAULT_HOME \<le> 23"
    "0 \<le> minutes DEFAULT_HOME" "minutes DEFAULT_HOME \<le> 59"
    by (simp_all add: DEFAULT_HOME_def)
  have nc: "\<not> isCompleted ?st"
    by (simp add: tick_fields targetForDate_eq Day_def msPerDay_def DEFAULT_HOME_def)
  from remaining_text_fields[OF v nc] nc show ?thesis by blast
qed

text \<open>
  C6 (as amended). The progress computation never divides by zero: the divisor of its one
  division, \<open>span || 1\<close>, is 1 exactly when the span from the anchor to the target is zero
  and is the span itself otherwise, also when the span is negative; so the quotient is a
  finite number, \<open>pct\<close> is a finite number and the fallback of \<open>Number.isFinite\<close> is never
  taken; the result is \<open>pct\<close>, a number in 0..100, and it is 0 when the span is exactly
  zero.
\<close>

theorem progress_divisor:
  "span_or_1 (span_of target startHour witaNow) \<noteq> 0 \<and>
   (span_of target startHour witaNow = 0 \<longrightarrow> span_or_1 (span_of target startHour witaNow) = 1) \<and>
   (span_of target startHour witaNow \<noteq> 0 \<longrightarrow>
      span_or_1 (span_of target startHour witaNow) = span_of target startHour witaNow) \<and>
   quotient_of target startHour witaNow
     = D (of_int (100 * (span_of target startHour witaNow - done_of target startHour witaNow))
          / of_int (span_or_1 (span_of target startHour witaNow))) \<and>
   Number_isFinite (quotient_of target startHour witaNow) \<and>
   Number_isFinite (pct_of target startHour witaNow) \<and>
   pct_of target startHour witaNow = D (progressToTarget target startHour witaNow) \<and>
   0 \<le> progressToTarget target startHour witaNow \<and>
   progressToTarget target startHour witaNow \<le> 100 \<and>
   (span_of target startHour witaNow = 0 \<longrightarrow> progressToTarget target startHour witaNow = 0)"
proof -
  have d: "span_or_1 (span_of target startHour witaNow) \<noteq> 0"
    "span_of target startHour witaNow = 0 \<longrightarrow> span_or_1 (span_of target startHour witaNow) = 1"
    "span_of target startHour witaNow \<noteq> 0 \<longrightarrow>
       span_or_1 (span_of target startHour witaNow) = span_of target startHour witaNow"
    by (simp_all add: span_or_1_def)
  have f: "Number_isFinite (quotient_of target startHour witaNow)"
    "Number_isFinite (pct_of target startHour witaNow)"
    by (simp_all add: quotient_of_finite pct_of_finite Number_isFinite_def)
  have p: "pct_of target startHour witaNow = D (progressToTarget target startHour witaNow)"
    by (simp add: pct_of_finite progressToTarget_eq)
  have z: "span_of target startHour witaNow = 0 \<longrightarrow> progressToTarget target startHour witaNow = 0"
    using progressToTarget_span_zero by blast
  from d f p z quotient_of_finite[of target startHour witaNow]
    progressToTarget_range[of target startHour witaNow]
  show ?thesis by blast
qed

theorem progress_divisor_witness:
  "span_of (targetForDate 8 0 0) 8 0 = 0 \<and> span_or_1 (span_of (targetForDate 8 0 0) 8 0) = 1
   \<and> quotient_of (targetForDate 8 0 0) 8 0 = D 0
   \<and> progressToTarget (targetForDate 8 0 0) 8 0 = 0"
proof -
  have z: "span_of (targetForDate 8 0 0) 8 0 = 0"
    by (simp add: span_of_def dayStart_anchor anchor_def targetForDate_eq Day_def msPerDay_def)
  have dn: "done_of (targetForDate 8 0 0) 8 0 = 0"
    by (simp add: done_of_def z)
  from progress_divisor[of "targetForDate 8 0 0" 8 0] z
  have "span_or_1 (span_of (targetForDate 8 0 0) 8 0) = 1"
    "progressToTarget (targetForDate 8 0 0) 8 0 = 0"
    "quotient_of (targetForDate 8 0 0) 8 0
       = D (of_int (100 * (span_of (targetForDate 8 0 0) 8 0 - done_of (targetForDate 8 0 0) 8 0))
            / of_int (span_or_1 (span_of (targetForDate 8 0 0) 8 0)))"
    by blast+
  then show ?thesis using z dn by simp
qed

text \<open>
  The claim as stated, the divisor 1 whenever the span is at most zero, fails for a
  negative span: with the target at 07:00 the span to the anchor at 08:00 is minus one
  hour, the divisor is that span and the quotient is 100.
\<close>

theorem progress_divisor_counterexample:
  "span_of (targetForDate 7 0 0) 8 0 \<le> 0
   \<and> span_or_1 (span_of (targetForDate 7 0 0) 8 0) \<noteq> 1
   \<and> quotient_of (targetForDate 7 0 0) 8 0 = D 100"
proof -
  have s: "span_of (targetForDate 7 0 0) 8 0 = - 3600000"
    by (simp add: span_of_def dayStart_anchor anchor_def targetForDate_eq Day_def msPerDay_def)
  have t: "targetForDate 7 0 0 = 25200000"
    by (simp add: targetForDate_eq Day_def msPerDay_def)
  have dn: "done_of (targetForDate 7 0 0) 8 0 = 0"
    unfolding done_of_def s by (simp add: t)
  show ?thesis
    unfolding quotient_of_def s dn by (simp add: span_or_1_def divide_js_def)
qed




text \<open>
  C10. \<open>formatDiff\<close> is total over the integer millisecond inputs. For every \<open>ms\<close>, also a
  negative one, the text has the shape \<open>dd:dd:dd\<close>; its hours field is in 0..23 and its
  minutes and seconds fields are in 0..59; the days count is not negative; days, hours,
  minutes and seconds add up to the whole seconds of \<open>ms\<close>, clamped at zero; and for every
  \<open>ms \<le> 0\<close> the text is exactly \<open>00:00:00\<close> with \<open>days = 0\<close>.
\<close>

theorem formatDiff_total:
  "is_HHMMSS (text_str (formatDiff ms)) \<and>
   0 \<le> field2 (text_str (formatDiff ms)) 0 \<and> field2 (text_str (formatDiff ms)) 0 \<le> 23 \<and>
   0 \<le> field2 (text_str (formatDiff ms)) 3 \<and> field2 (text_str (formatDiff ms)) 3 \<le> 59 \<and>
   0 \<le> field2 (text_str (formatDiff ms)) 6 \<and> field2 (text_str (formatDiff ms)) 6 \<le> 59 \<and>
   0 \<le> days (formatDiff ms) \<and>
   days (formatDiff ms) * 86400 + field2 (text_str (formatDiff ms)) 0 * 3600
     + field2 (text_str (formatDiff ms)) 3 * 60 + field2 (text_str (formatDiff ms)) 6
     = max 0 (ms div 1000) \<and>
   (ms \<le> 0 \<longrightarrow> text_str (formatDiff ms) = ''00:00:00'' \<and> days (formatDiff ms) = 0)"
  by (rule formatDiff_fields)

theorem formatDiff_total_witness:
  "(- 5000 :: int) \<le> 0 \<and> text_str (formatDiff (- 5000)) = ''00:00:00'' \<and> days (formatDiff (- 5000)) = 0"
  using formatDiff_total[of "- 5000"] by simp

section \<open>Properties of the configuration layer\<close>

text \<open>
  C7. Whatever is stored and whatever the user enters, the two configuration strings of
  the app always match \<open>dd:dd\<close>: the modal rejects a pair with a string that does not
  match, leaving the app as it was, and the mount effect replaces a stored field that does
  not match by its default. Every configuration handed to the countdown has hours in
  0..23 and minutes in 0..59; \<open>parseTimeToCfg\<close> gives such values for every string, for
  a matching string the two-digit values capped at 23 and at 59, so that \<open>99:99\<close>, which
  matches, gives 23:59.
\<close>

theorem configuration_boundary:
  "isValidTimeStr (rest (userCfg (run st evs))) \<and>
   isValidTimeStr (home (userCfg (run st evs))) \<and>
   0 \<le> hours (restAt_of (run st evs)) \<and> hours (restAt_of (run st evs)) \<le> 23 \<and>
   0 \<le> minutes (restAt_of (run st evs)) \<and> minutes (restAt_of (run st evs)) \<le> 59 \<and>
   0 \<le> hours (homeAt_of (run st evs)) \<and> hours (homeAt_of (run st evs)) \<le> 23 \<and>
   0 \<le> minutes (homeAt_of (run st evs)) \<and> minutes (homeAt_of (run st evs)) \<le> 59 \<and>
   (\<not> isValidTimeStr r \<or> \<not> isValidTimeStr h \<longrightarrow> step app (Simpan r h) = app) \<and>
   (\<not> isValidTimeStr (ToString r0) \<longrightarrow>
      rest (userCfg (mountEffect (initialApp (Parsed r0 h0)))) = ''11:30'') \<and>
   (\<not> isValidTimeStr (ToString h0) \<longrightarrow>
      home (userCfg (mountEffect (initialApp (Parsed r0 h0)))) = ''16:00'') \<and>
   0 \<le> hours (parseTimeToCfg t lbl) \<and> hours (parseTimeToCfg t lbl) \<le> 23 \<and>
   0 \<le> minutes (parseTimeToCfg t lbl) \<and> minutes (parseTimeToCfg t lbl) \<le> 59 \<and>
   (isValidTimeStr t \<longrightarrow>
      hours (parseTimeToCfg t lbl) = min 23 (field2 t 0) \<and>
      minutes (parseTimeToCfg t lbl) = min 59 (field2 t 3)) \<and>
   isValidTimeStr ''99:99'' \<and>
   parseTimeToCfg ''99:99'' lbl = \<lparr>hours = 23, minutes = 59, label = lbl\<rparr>"
proof -
  have m: "\<not> isValidTimeStr (ToString r0) \<longrightarrow>
      rest (userCfg (mountEffect (initialApp (Parsed r0 h0)))) = ''11:30''"
    "\<not> isValidTimeStr (ToString h0) \<longrightarrow>
      home (userCfg (mountEffect (initialApp (Parsed r0 h0)))) = ''16:00''"
    by (simp_all add: mountEffect_def initialApp_def)
  have rj: "\<not> isValidTimeStr r \<or> \<not> isValidTimeStr h \<longrightarrow> step app (Simpan r h) = app"
    using step_reject by blast
  have pv: "isValidTimeStr t \<longrightarrow>
      hours (parseTimeToCfg t lbl) = min 23 (field2 t 0) \<and>
      minutes (parseTimeToCfg t lbl) = min 59 (field2 t 3)"
    using parseTimeToCfg_valid by blast
  show ?thesis
    using run_valid[of st evs]
      parseTimeToCfg_range[of "rest (userCfg (run st evs))" "''Waktunya istirahat''"]
      parseTimeToCfg_range[of "home (userCfg (run st evs))" "''Waktunya pulang''"]
      parseTimeToCfg_range[of t lbl] parse_9999[of lbl] m rj pv
    unfolding restAt_of_def homeAt_of_def by blast
qed

theorem configuration_boundary_witness:
  "\<not> isValidTimeStr ''9:30'' \<and>
   step (mountEffect (initialApp Absent)) (Simpan ''9:30'' ''16:00'') = mountEffect (initialApp Absent) \<and>
   rest (userCfg (mountEffect (initialApp (Parsed (Some ''9:30'') (Some ''17:00''))))) = ''11:30'' \<and>
   hours (parseTimeToCfg ''12:30'' ''Waktunya istirahat'') = 12"
proof -
  have n: "\<not> isValidTimeStr ''9:30''" by (simp add: isValidTimeStr_def)
  have n': "\<not> isValidTimeStr (ToString (Some ''9:30''))" by (simp add: isValidTimeStr_def ToString_def)
  have v: "isValidTimeStr ''12:30''" by (simp add: isValidTimeStr_def isDigit_def)
  have f: "field2 ''12:30'' 0 = 12" by (simp add: field2_def digits_value_def digit_val_def)
  note c = configuration_boundary[of Absent "[]" "''9:30''" "''16:00''" "mountEffect (initialApp Absent)"
      "Some ''9:30''" "Some ''17:00''" "''12:30''" "''Waktunya istirahat''"]
  from c n have 1: "step (mountEffect (initialApp Absent)) (Simpan ''9:30'' ''16:00'') = mountEffect (initialApp Absent)"
    by blast
  from c n' have 2: "rest (userCfg (mountEffect (initialApp (Parsed (Some ''9:30'') (Some ''17:00''))))) = ''11:30''"
    by blast
  from c v have "hours (parseTimeToCfg ''12:30'' ''Waktunya istirahat'') = min 23 (field2 ''12:30'' 0)"
    by blast
  then have 3: "hours (parseTimeToCfg ''12:30'' ''Waktunya istirahat'') = 12" unfolding f by simp
  from n 1 2 3 show ?thesis by blast
qed






end
